theory Spec2Isabelle
  imports Main
begin

section \<open>JavaScript values used by the embedded sources\<close>

text \<open>
  The sources are TypeScript. A value that may be \<^verbatim>\<open>null\<close> or
  \<^verbatim>\<open>undefined\<close> is an \<open>option\<close>; a \<^verbatim>\<open>throw\<close> is the left
  injection of a sum; an object literal with a fixed set of keys is a record; an object
  whose keys are open (element attributes, the process environment) is a map.
\<close>

datatype jsval = Undefined | JBool bool | JStr string

text \<open>Truthiness of an optional boolean, as \<^verbatim>\<open>isActive ? a : b\<close> tests it.\<close>

definition truthy :: "bool option \<Rightarrow> bool" where
  "truthy b = (b = Some True)"

section \<open>The route guard of the authenticated route group\<close>

text \<open>
  \<^verbatim>\<open>
  export const Route = createFileRoute('/_app')({
    beforeLoad: async () => {
      const session = await getSession();
      if (!session) {
        throw redirect({ to: '/login' });
      }
    },
    component: AppLayout,
  });
  \<close>
  The thrown value is the router's redirect signal. The session provider is outside the
  repository, so \<^verbatim>\<open>getSession\<close> is the parameter \<open>get_session\<close>: it reads the
  incoming request \<open>req\<close> and yields the session or nothing.
\<close>

datatype route_signal = Redirect string

definition redirect :: "string \<Rightarrow> route_signal" where
  "redirect to = Redirect to"

definition beforeLoad :: "('req \<Rightarrow> 'sess option) \<Rightarrow> 'req \<Rightarrow> route_signal + unit" where
  "beforeLoad get_session req =
     (case get_session req of
        None \<Rightarrow> Inl (redirect ''/login'')
      | Some session \<Rightarrow> Inr ())"

text \<open>
  The second copy of the guard takes the session provider from the router context:
  \<^verbatim>\<open>
    beforeLoad: async ({ context }) => {
      const session = await context.auth.getSession();
      if (!session) {
        throw redirect({ to: '/login' });
      }
    },
  \<close>
\<close>

record ('req, 'sess) auth_api =
  getSession :: "'req \<Rightarrow> 'sess option"

record ('req, 'sess) router_context =
  auth :: "('req, 'sess) auth_api"

definition beforeLoad_context ::
  "('req, 'sess) router_context \<Rightarrow> 'req \<Rightarrow> route_signal + unit" where
  "beforeLoad_context context req =
     (case getSession (auth context) req of
        None \<Rightarrow> Inl (redirect ''/login'')
      | Some session \<Rightarrow> Inr ())"

text \<open>
  A route as the router sees it: its guard hook and, when it declares one, its loader.
  A loader is a state transformer over whatever the data-fetch functions touch
  (\<open>'st\<close>: the query cache, the server, a log of the calls made).
\<close>

record ('req, 'st) route =
  guard_hook :: "'req \<Rightarrow> route_signal + unit"
  loader_hook :: "('st \<Rightarrow> 'st) option"

text \<open>The two copies of the layout route of the group: a guard and no loader.\<close>

definition Route :: "('req \<Rightarrow> 'sess option) \<Rightarrow> ('req, 'st) route" where
  "Route get_session = \<lparr> guard_hook = beforeLoad get_session, loader_hook = None \<rparr>"

definition Route_context :: "('req, 'sess) router_context \<Rightarrow> ('req, 'st) route" where
  "Route_context context = \<lparr> guard_hook = beforeLoad_context context, loader_hook = None \<rparr>"

text \<open>
  Modelled from the spec: the router's lifecycle for one request, which is an external
  library and not part of the sources. The spec gives its order: the matched routes'
  guard phase runs first and a redirect signalled there is terminal; only when every
  guard passes does the loader phase run; the view is rendered after it. The matched
  routes of a page are the layout route of its group followed by the page's own routes.
\<close>

datatype response = Redirected string | Rendered

text \<open>
  Modelled from the spec: the guard phase. The guards of the matched routes run in
  order, and the first redirect signalled ends the phase.
\<close>

fun guard_phase :: "('req, 'st) route list \<Rightarrow> 'req \<Rightarrow> route_signal + unit" where
  "guard_phase [] req = Inr ()"
| "guard_phase (r # rs) req =
     (case guard_hook r req of
        Inl signal \<Rightarrow> Inl signal
      | Inr u \<Rightarrow> guard_phase rs req)"

text \<open>
  Modelled from the spec: the loader phase. Each matched route that declares a loader
  has it run, in order, on the state left by the one before.
\<close>

fun loader_phase :: "('req, 'st) route list \<Rightarrow> 'st \<Rightarrow> 'st" where
  "loader_phase [] st = st"
| "loader_phase (r # rs) st =
     (case loader_hook r of
        None \<Rightarrow> loader_phase rs st
      | Some load \<Rightarrow> loader_phase rs (load st))"

text \<open>
  Modelled from the spec: one request. A redirect from the guard phase is the answer, and
  the state is handed back untouched; otherwise the loader phase runs and the view is
  rendered.
\<close>

definition process_request ::
  "('req, 'st) route list \<Rightarrow> 'req \<Rightarrow> 'st \<Rightarrow> response \<times> 'st" where
  "process_request matches req st =
     (case guard_phase matches req of
        Inl (Redirect to) \<Rightarrow> (Redirected to, st)
      | Inr u \<Rightarrow> (Rendered, loader_phase matches st))"

text \<open>
  A data-fetch function that records its own invocation, to observe whether a loader
  ran: the state is the list of fetches made so far.
\<close>

definition logged_fetch :: "string \<Rightarrow> string list \<Rightarrow> string list" where
  "logged_fetch name calls = calls @ [name]"

text \<open>
  Modelled from the spec: the dashboard page of its example scenario is a route of the
  group with no guard of its own, so its guard hook passes every request through.
\<close>

definition no_guard :: "'req \<Rightarrow> route_signal + unit" where
  "no_guard req = Inr ()"

text \<open>
  Modelled from the spec: the dashboard route, whose loader calls the data-fetch function
  named \<open>dashboard\<close>.
\<close>

definition dashboard_route :: "('req, string list) route" where
  "dashboard_route = \<lparr> guard_hook = no_guard, loader_hook = Some (logged_fetch ''dashboard'') \<rparr>"

text \<open>
  Modelled from the spec: a session provider for the scenarios. The session is the value
  of the cookie header, and a request without that header has none.
\<close>

definition cookie_session :: "(string \<times> string) list \<Rightarrow> string option" where
  "cookie_session headers = map_of headers ''cookie''"

section \<open>The Drizzle configuration module\<close>

text \<open>
  \<^verbatim>\<open>
  export default defineConfig({
    casing: 'snake_case',
    dbCredentials: { url: process.env.DATABASE_URL! },
    dialect: 'postgresql',
    out: './drizzle',
    schema: './src/schema/index.ts',
  });
  \<close>
  \<^verbatim>\<open>process.env\<close> is a map from names to strings; reading an unset name gives
  \<^verbatim>\<open>undefined\<close>, here \<open>None\<close>. The postfix \<^verbatim>\<open>!\<close> is erased by the
  compiler and has no run-time meaning. Evaluating the module either throws or yields
  the exported object, so its result is a sum.
\<close>

type_synonym process_env = "string \<rightharpoonup> string"

record db_credentials =
  url :: "string option"

record drizzle_config =
  casing :: string
  dbCredentials :: db_credentials
  dialect :: string
  out :: string
  schema :: string

text \<open>
  \<^verbatim>\<open>defineConfig\<close> is imported from drizzle-kit, where it is a typing helper that
  returns its argument.
\<close>

definition defineConfig :: "drizzle_config \<Rightarrow> drizzle_config" where
  "defineConfig config = config"

definition drizzle_config_module :: "process_env \<Rightarrow> string + drizzle_config" where
  "drizzle_config_module env =
     Inr (defineConfig
       \<lparr> casing = ''snake_case'',
         dbCredentials = \<lparr> url = env ''DATABASE_URL'' \<rparr>,
         dialect = ''postgresql'',
         out = ''./drizzle'',
         schema = ''./src/schema/index.ts'' \<rparr>)"

section \<open>The pagination link component\<close>

text \<open>
  \<^verbatim>\<open>
  function PaginationLink({ children, className, isActive, size = 'icon', ...props }) {
    return (
      <Button
        className={cn(className)}
        nativeButton={false}
        render={
          <a
            aria-current={isActive ? 'page' : undefined}
            data-active={isActive}
            data-slot="pagination-link"
            {...props}
          >
            {children}
          </a>
        }
        size={size}
        variant={isActive ? 'outline' : 'ghost'}
      />
    );
  }
  \<close>
  The props are the four named ones and the rest object \<open>props\<close>, whose keys are any
  attributes of an anchor. An element's attributes are a map from attribute names to
  values; a key bound to \<open>Undefined\<close> and an absent key both read as \<open>Undefined\<close>.
  In JSX the attributes are applied left to right, so the spread \<^verbatim>\<open>{...props}\<close>,
  written last, overrides the three attributes written before it: that is \<open>++\<close> on maps.
  \<^verbatim>\<open>cn\<close> comes from a module outside the sources and is a parameter.
\<close>

type_synonym attributes = "string \<rightharpoonup> jsval"

record 'c pagination_link_props =
  children :: 'c
  className :: "string option"
  isActive :: "bool option"
  size_prop :: "string option"
  props :: attributes

record 'c anchor_element =
  anchor_attributes :: attributes
  anchor_children :: 'c

record 'c button_element =
  button_className :: string
  button_nativeButton :: bool
  button_render :: "'c anchor_element"
  button_size :: string
  button_variant :: string

definition attribute :: "'c anchor_element \<Rightarrow> string \<Rightarrow> jsval" where
  "attribute el name = (case anchor_attributes el name of None \<Rightarrow> Undefined | Some v \<Rightarrow> v)"

definition PaginationLink ::
  "(string option \<Rightarrow> string) \<Rightarrow> 'c pagination_link_props \<Rightarrow> 'c button_element" where
  "PaginationLink cn p =
     \<lparr> button_className = cn (className p),
       button_nativeButton = False,
       button_render =
         \<lparr> anchor_attributes =
             [''aria-current'' \<mapsto> (if truthy (isActive p) then JStr ''page'' else Undefined),
              ''data-active'' \<mapsto> (case isActive p of None \<Rightarrow> Undefined | Some b \<Rightarrow> JBool b),
              ''data-slot'' \<mapsto> JStr ''pagination-link'']
             ++ props p,
           anchor_children = children p \<rparr>,
       button_size = (case size_prop p of None \<Rightarrow> ''icon'' | Some s \<Rightarrow> s),
       button_variant = (if truthy (isActive p) then ''outline'' else ''ghost'') \<rparr>"

text \<open>A class-name joiner to run the component with: the class name, or the empty string.\<close>

definition cn_single :: "string option \<Rightarrow> string" where
  "cn_single name = (case name of None \<Rightarrow> [] | Some c \<Rightarrow> c)"

section \<open>The server function boundary\<close>

text \<open>
  The structured result of a server handler: \<^verbatim>\<open>{ data: ... }\<close> on success,
  \<^verbatim>\<open>{ error: string, code: string }\<close> on failure.
\<close>

datatype 'a structured_result = Success 'a | Failure string string

text \<open>
  Modelled from the spec: the server function boundary. No server handler is part of
  the sources; the spec (section 4.2) gives the contract this definition follows. The
  input is validated against the declared schema before the handler body executes, and
  a validation failure yields the validation-error result without running the body.
  The body is a function of the request headers, the input and the state its side
  effects act on (\<open>'db\<close>), returning the result and the new state.
\<close>

definition server_function ::
  "('i \<Rightarrow> bool) \<Rightarrow> ('h \<Rightarrow> 'i \<Rightarrow> 'db \<Rightarrow> 'a structured_result \<times> 'db) \<Rightarrow>
   'h \<Rightarrow> 'i \<Rightarrow> 'db \<Rightarrow> 'a structured_result \<times> 'db" where
  "server_function input_schema body headers input db =
     (if input_schema input then body headers input db
      else (Failure ''Invalid input'' ''VALIDATION_ERROR'', db))"

text \<open>
  Modelled from the spec: the body of a handler performing a privileged action. It
  re-derives the session from the request headers; without a session it returns the
  unauthorized result, and only with one does it perform the effectful \<open>action\<close>.
\<close>

definition privileged_body ::
  "('h \<Rightarrow> 's option) \<Rightarrow> ('s \<Rightarrow> 'i \<Rightarrow> 'db \<Rightarrow> 'a structured_result \<times> 'db) \<Rightarrow>
   'h \<Rightarrow> 'i \<Rightarrow> 'db \<Rightarrow> 'a structured_result \<times> 'db" where
  "privileged_body session_of action headers input db =
     (case session_of headers of
        None \<Rightarrow> (Failure ''Authentication required'' ''AUTH_REQUIRED'', db)
      | Some session \<Rightarrow> action session input db)"

text \<open>
  Modelled from the spec: the schema of the create-post handler in the example scenario
  of its section 8, a title of length at least one. The database of the scenario is the
  list of its rows, each the author's session and the title.
\<close>

definition createPost_schema :: "string \<Rightarrow> bool" where
  "createPost_schema title = (1 \<le> length title)"

text \<open>
  Modelled from the spec: the action of the create-post handler, which adds the row and
  returns the title as the success payload.
\<close>

definition createPost_action ::
  "string \<Rightarrow> string \<Rightarrow> (string \<times> string) list \<Rightarrow>
   string structured_result \<times> (string \<times> string) list" where
  "createPost_action session title db = (Success title, db @ [(session, title)])"

text \<open>
  Modelled from the spec: the create-post handler, a privileged body behind the
  boundary with the schema above.
\<close>

definition createPost ::
  "(string \<times> string) list \<Rightarrow> string \<Rightarrow> (string \<times> string) list \<Rightarrow>
   string structured_result \<times> (string \<times> string) list" where
  "createPost = server_function createPost_schema (privileged_body cookie_session createPost_action)"

section \<open>The route guard: properties\<close>

lemma beforeLoad_passes_with_session:
  "get_session req = Some session \<Longrightarrow> beforeLoad get_session req = Inr ()"
  by (simp add: beforeLoad_def)

lemma guard_phase_Route_no_session:
  "get_session req = None \<Longrightarrow>
   guard_phase (Route get_session # rs) req = Inl (Redirect ''/login'')"
  by (simp add: Route_def beforeLoad_def redirect_def)

lemma guard_phase_Route_context_no_session:
  "getSession (auth context) req = None \<Longrightarrow>
   guard_phase (Route_context context # rs) req = Inl (Redirect ''/login'')"
  by (simp add: Route_context_def beforeLoad_context_def redirect_def)

lemma process_request_redirect:
  "guard_phase matches req = Inl (Redirect to) \<Longrightarrow>
   process_request matches req st = (Redirected to, st)"
  by (simp add: process_request_def)

text \<open>
  With a session the same request reaches the loader phase, and the dashboard's
  data-fetch function is called once: the model's loader phase is not idle.
\<close>

lemma app_group_session_runs_loader:
  "process_request [Route cookie_session, dashboard_route] [(''cookie'', ''s1'')] []
     = (Rendered, [''dashboard''])"
  by (simp add: process_request_def Route_def beforeLoad_def dashboard_route_def no_guard_def
      cookie_session_def logged_fetch_def)

text \<open>
  Claim C1. For every route of the authenticated route group, that is for every list of
  matched routes that starts with the group's layout route (either copy of it) and
  continues with any routes \<open>rs\<close>, whatever their loaders: a request for which the
  session provider yields no session is answered by a redirect to \<open>/login\<close>, and the
  state that the data-fetch functions act on is returned as it was. The guard's
  redirect is terminal and no loader runs.
\<close>

theorem app_group_no_session_redirects:
  "(get_session req = None \<longrightarrow>
      process_request (Route get_session # rs) req st = (Redirected ''/login'', st))
   \<and> (getSession (auth context) req = None \<longrightarrow>
      process_request (Route_context context # rs) req st = (Redirected ''/login'', st))"
proof (intro conjI impI)
  assume "get_session req = None"
  then have "guard_phase (Route get_session # rs) req = Inl (Redirect ''/login'')"
    by (rule guard_phase_Route_no_session)
  then show "process_request (Route get_session # rs) req st = (Redirected ''/login'', st)"
    by (rule process_request_redirect)
next
  assume "getSession (auth context) req = None"
  then have "guard_phase (Route_context context # rs) req = Inl (Redirect ''/login'')"
    by (rule guard_phase_Route_context_no_session)
  then show "process_request (Route_context context # rs) req st = (Redirected ''/login'', st)"
    by (rule process_request_redirect)
qed

text \<open>
  The dashboard page requested with no cookie: the answer is the redirect and the log of
  data-fetch calls stays empty.
\<close>

theorem app_group_no_session_redirects_witness:
  "cookie_session [] = None
   \<and> process_request [Route cookie_session, dashboard_route] [] []
       = (Redirected ''/login'', [])
   \<and> process_request
         [Route_context \<lparr> auth = \<lparr> getSession = cookie_session \<rparr> \<rparr>, dashboard_route] [] []
       = (Redirected ''/login'', [])"
  using app_group_no_session_redirects
    [of cookie_session "[]" "[dashboard_route]" "[]"
        "\<lparr> auth = \<lparr> getSession = cookie_session \<rparr> \<rparr>"]
  by (simp add: cookie_session_def)

section \<open>The Drizzle configuration: properties\<close>

text \<open>In every environment the module yields a configuration and never throws.\<close>

lemma drizzle_config_module_total:
  "drizzle_config_module env =
     Inr \<lparr> casing = ''snake_case'',
           dbCredentials = \<lparr> url = env ''DATABASE_URL'' \<rparr>,
           dialect = ''postgresql'',
           out = ''./drizzle'',
           schema = ''./src/schema/index.ts'' \<rparr>"
  by (simp add: drizzle_config_module_def defineConfig_def)

text \<open>
  Claim C9. Constructing the Drizzle configuration does not fail fast on a missing
  variable: in every environment where \<open>DATABASE_URL\<close> is unset, evaluating the module
  yields the exported configuration, and its \<open>dbCredentials.url\<close> is undefined.
\<close>

theorem drizzle_config_unset_database_url:
  assumes "env ''DATABASE_URL'' = None"
  shows "drizzle_config_module env =
     Inr \<lparr> casing = ''snake_case'',
           dbCredentials = \<lparr> url = None \<rparr>,
           dialect = ''postgresql'',
           out = ''./drizzle'',
           schema = ''./src/schema/index.ts'' \<rparr>"
  using assms by (simp add: drizzle_config_module_total)

theorem drizzle_config_unset_database_url_witness:
  "Map.empty ''DATABASE_URL'' = (None :: string option) \<and>
   (case drizzle_config_module Map.empty of
      Inl e \<Rightarrow> False
    | Inr config \<Rightarrow> url (dbCredentials config) = None)"
  using drizzle_config_unset_database_url [of Map.empty] by simp

section \<open>The pagination link: properties\<close>

text \<open>
  Every attribute of the rendered anchor: a key of the rest props wins, and only for a key
  the rest props do not carry does the attribute written in the component show.
\<close>

lemma attribute_PaginationLink:
  "attribute (button_render (PaginationLink cn p)) name =
     (case props p name of
        Some v \<Rightarrow> v
      | None \<Rightarrow>
          (if name = ''data-slot'' then JStr ''pagination-link''
           else if name = ''data-active''
             then (case isActive p of None \<Rightarrow> Undefined | Some b \<Rightarrow> JBool b)
           else if name = ''aria-current''
             then (if truthy (isActive p) then JStr ''page'' else Undefined)
           else Undefined))"
  by (simp add: attribute_def PaginationLink_def map_add_def split: option.split)

lemma PaginationLink_aria_current_overridden:
  "props p ''aria-current'' = Some v \<Longrightarrow>
   attribute (button_render (PaginationLink cn p)) ''aria-current'' = v"
  by (simp add: attribute_PaginationLink)

text \<open>
  Claim C10, as stated: for every props input the anchor's \<open>aria-current\<close> is
  \<open>page\<close> exactly when \<open>isActive\<close> is true. It fails for a link that is not active and
  whose rest props carry \<open>aria-current = page\<close> themselves: the spread is applied after
  the computed attribute and overrides it.
\<close>

theorem PaginationLink_aria_current_counterexample:
  "\<not> ((attribute (button_render (PaginationLink cn_single
          \<lparr> children = (), className = None, isActive = Some False, size_prop = None,
            props = [''aria-current'' \<mapsto> JStr ''page''] \<rparr>)) ''aria-current'' = JStr ''page'')
       = (isActive
          \<lparr> children = (), className = None, isActive = Some False, size_prop = None,
            props = [''aria-current'' \<mapsto> JStr ''page''] \<rparr> = Some True))"
  by (simp add: attribute_PaginationLink)

text \<open>
  Claim C10, amended. For every props input whose rest props carry no \<open>aria-current\<close>
  key, the anchor's \<open>aria-current\<close> is \<open>page\<close> exactly when \<open>isActive\<close> is true and
  is undefined exactly when it is not; an \<open>aria-current\<close> that the rest props do carry
  is the anchor's value, whatever \<open>isActive\<close> is. For every props input, the variant
  handed to the button is \<open>outline\<close> when \<open>isActive\<close> is true and \<open>ghost\<close>
  otherwise, and the size is the given one, \<open>icon\<close> when none is given.
\<close>

theorem PaginationLink_aria_current_variant_size:
  "(props p ''aria-current'' = None \<longrightarrow>
      (attribute (button_render (PaginationLink cn p)) ''aria-current'' = JStr ''page'')
        = (isActive p = Some True)
      \<and> (attribute (button_render (PaginationLink cn p)) ''aria-current'' = Undefined)
        = (isActive p \<noteq> Some True))
   \<and> (\<forall>v. props p ''aria-current'' = Some v \<longrightarrow>
      attribute (button_render (PaginationLink cn p)) ''aria-current'' = v)
   \<and> button_variant (PaginationLink cn p)
       = (if isActive p = Some True then ''outline'' else ''ghost'')
   \<and> button_size (PaginationLink cn p)
       = (case size_prop p of None \<Rightarrow> ''icon'' | Some s \<Rightarrow> s)"
proof (intro conjI impI allI)
  assume none: "props p ''aria-current'' = None"
  then have a: "attribute (button_render (PaginationLink cn p)) ''aria-current''
                  = (if truthy (isActive p) then JStr ''page'' else Undefined)"
    by (simp add: attribute_PaginationLink)
  show "(attribute (button_render (PaginationLink cn p)) ''aria-current'' = JStr ''page'')
          = (isActive p = Some True)"
    unfolding a by (simp add: truthy_def)
  show "(attribute (button_render (PaginationLink cn p)) ''aria-current'' = Undefined)
          = (isActive p \<noteq> Some True)"
    unfolding a by (simp add: truthy_def)
next
  fix v
  assume "props p ''aria-current'' = Some v"
  then show "attribute (button_render (PaginationLink cn p)) ''aria-current'' = v"
    by (simp add: attribute_PaginationLink)
next
  show "button_variant (PaginationLink cn p)
          = (if isActive p = Some True then ''outline'' else ''ghost'')"
    by (simp add: PaginationLink_def truthy_def)
next
  show "button_size (PaginationLink cn p)
          = (case size_prop p of None \<Rightarrow> ''icon'' | Some s \<Rightarrow> s)"
    by (simp add: PaginationLink_def)
qed

text \<open>
  An active link with only an \<open>href\<close> among its rest props, and an inactive link of
  size \<open>default\<close> whose rest props carry \<open>aria-current = step\<close>.
\<close>

theorem PaginationLink_aria_current_variant_size_witness:
  "props \<lparr> children = (), className = None, isActive = Some True, size_prop = None,
           props = [''href'' \<mapsto> JStr ''/posts?page=2''] \<rparr> ''aria-current'' = None
   \<and> attribute (button_render (PaginationLink cn_single
        \<lparr> children = (), className = None, isActive = Some True, size_prop = None,
          props = [''href'' \<mapsto> JStr ''/posts?page=2''] \<rparr>)) ''aria-current'' = JStr ''page''
   \<and> button_variant (PaginationLink cn_single
        \<lparr> children = (), className = None, isActive = Some True, size_prop = None,
          props = [''href'' \<mapsto> JStr ''/posts?page=2''] \<rparr>) = ''outline''
   \<and> button_size (PaginationLink cn_single
        \<lparr> children = (), className = None, isActive = Some True, size_prop = None,
          props = [''href'' \<mapsto> JStr ''/posts?page=2''] \<rparr>) = ''icon''
   \<and> props \<lparr> children = (), className = None, isActive = Some False, size_prop = Some ''default'',
           props = [''aria-current'' \<mapsto> JStr ''step''] \<rparr> ''aria-current'' = Some (JStr ''step'')
   \<and> attribute (button_render (PaginationLink cn_single
        \<lparr> children = (), className = None, isActive = Some False, size_prop = Some ''default'',
          props = [''aria-current'' \<mapsto> JStr ''step''] \<rparr>)) ''aria-current'' = JStr ''step''
   \<and> button_variant (PaginationLink cn_single
        \<lparr> children = (), className = None, isActive = Some False, size_prop = Some ''default'',
          props = [''aria-current'' \<mapsto> JStr ''step''] \<rparr>) = ''ghost''
   \<and> button_size (PaginationLink cn_single
        \<lparr> children = (), className = None, isActive = Some False, size_prop = Some ''default'',
          props = [''aria-current'' \<mapsto> JStr ''step''] \<rparr>) = ''default''"
  using
    PaginationLink_aria_current_variant_size
      [of "\<lparr> children = (), className = None, isActive = Some True, size_prop = None,
            props = [''href'' \<mapsto> JStr ''/posts?page=2''] \<rparr>" cn_single]
    PaginationLink_aria_current_variant_size
      [of "\<lparr> children = (), className = None, isActive = Some False,
            size_prop = Some ''default'',
            props = [''aria-current'' \<mapsto> JStr ''step''] \<rparr>" cn_single]
  by simp

section \<open>The server function boundary: properties\<close>

text \<open>
  Claim C2. For every handler body and every input that fails the declared schema, the
  call returns the failure result with code \<open>VALIDATION_ERROR\<close> and the state as it
  was: the value does not depend on the body, which is not executed.
\<close>

theorem server_function_validation_error:
  assumes "\<not> input_schema input"
  shows "server_function input_schema body headers input db
           = (Failure ''Invalid input'' ''VALIDATION_ERROR'', db)"
  using assms by (simp add: server_function_def)

text \<open>
  The spec's scenario: creating a post with an empty title, even with a session, gives
  the validation error and no row.
\<close>

theorem server_function_validation_error_witness:
  "\<not> createPost_schema ''''
   \<and> createPost [(''cookie'', ''s1'')] '''' []
       = (Failure ''Invalid input'' ''VALIDATION_ERROR'', [])"
  using server_function_validation_error
    [of createPost_schema "''''" "privileged_body cookie_session createPost_action"
        "[(''cookie'', ''s1'')]" "[]"]
  by (simp add: createPost_def createPost_schema_def)

text \<open>
  Behind the boundary the input is validated before the handler runs, so a call that has
  both a rejected input and no session never reaches the handler and is answered by the
  validation error; one result carries one code.
\<close>

lemma structured_result_one_code:
  "r = Failure m1 ''VALIDATION_ERROR'' \<Longrightarrow> r \<noteq> Failure m2 ''AUTH_REQUIRED''"
  by simp

lemma createPost_rejected_input_without_session:
  "createPost [] '''' [] = (Failure ''Invalid input'' ''VALIDATION_ERROR'', [])"
  by (simp add: createPost_def server_function_def createPost_schema_def)



end
